theory Spec2Isabelle
  imports Main "HOL-Library.Sublist"
begin

section \<open>Python values\<close>

text \<open>
  The values that \<^verbatim>\<open>json.loads\<close> returns and that the script puts into its inventory.
  A dictionary is an association list in insertion order; its keys are the hashable
  scalars. A \<open>char\<close> stands for a code point below 256. A float is carried as its
  \<^verbatim>\<open>repr\<close> text, which determines it.
\<close>

datatype pykey = KNone | KBool bool | KInt int | KFloat string | KStr string

datatype pyval =
    PNone
  | PBool bool
  | PInt int
  | PFloat string
  | PStr string
  | PList "pyval list"
  | PDict "(pykey \<times> pyval) list"

text \<open>The exceptions that the script does not catch.\<close>

datatype pyexc =
    AttributeError | TypeError | OSError | UnicodeDecodeError | ValueError | RecursionError

text \<open>Truth value testing, as \<^verbatim>\<open>not public_ip\<close> does it.\<close>

fun truthy :: "pyval \<Rightarrow> bool" where
  "truthy PNone = False"
| "truthy (PBool b) = b"
| "truthy (PInt i) = (i \<noteq> 0)"
| "truthy (PFloat r) = (r \<noteq> ''0.0'' \<and> r \<noteq> ''-0.0'')"
| "truthy (PStr s) = (s \<noteq> [])"
| "truthy (PList xs) = (xs \<noteq> [])"
| "truthy (PDict kvs) = (kvs \<noteq> [])"

text \<open>
  Using a value as a dictionary key: lists and dictionaries are unhashable, which is
  \<open>None\<close> here and a \<^verbatim>\<open>TypeError\<close> in the caller.
\<close>

fun as_key :: "pyval \<Rightarrow> pykey option" where
  "as_key PNone = Some KNone"
| "as_key (PBool b) = Some (KBool b)"
| "as_key (PInt i) = Some (KInt i)"
| "as_key (PFloat r) = Some (KFloat r)"
| "as_key (PStr s) = Some (KStr s)"
| "as_key (PList xs) = None"
| "as_key (PDict kvs) = None"

text \<open>
  \<^verbatim>\<open>obj.get(k, d)\<close> with a string key: only a dictionary has the method; on any other
  value the attribute lookup raises \<^verbatim>\<open>AttributeError\<close>.
\<close>

fun py_get :: "pyval \<Rightarrow> string \<Rightarrow> pyval \<Rightarrow> pyexc + pyval" where
  "py_get (PDict kvs) k d = Inr (case map_of kvs (KStr k) of None \<Rightarrow> d | Some v \<Rightarrow> v)"
| "py_get _ k d = Inl AttributeError"

section \<open>Text of numbers and of JSON\<close>

definition digit_char :: "nat \<Rightarrow> char" where
  "digit_char d = ''0123456789abcdef'' ! d"

function show_nat :: "nat \<Rightarrow> string" where
  "show_nat n = (if n < 10 then [digit_char n] else show_nat (n div 10) @ [digit_char (n mod 10)])"
  by pat_completeness auto
termination
  by (relation "measure (\<lambda>n. n)") auto

definition show_int :: "int \<Rightarrow> string" where
  "show_int i = (if i < 0 then ''-'' @ show_nat (nat (- i)) else show_nat (nat i))"

text \<open>
  \<^verbatim>\<open>json.dumps\<close> escapes with \<^verbatim>\<open>ensure_ascii\<close>: the backslash, the double quote and
  five control characters have short escapes, every other character outside
  \<^verbatim>\<open>' '..'~'\<close> becomes \<^verbatim>\<open>\uXXXX\<close>.
\<close>

definition escape_char :: "char \<Rightarrow> string" where
  "escape_char c =
     (let n = (of_char c :: nat) in
      if n = 0x5C then [CHR 0x5C, CHR 0x5C]
      else if n = 0x22 then [CHR 0x5C, CHR 0x22]
      else if n = 0x08 then [CHR 0x5C, CHR ''b'']
      else if n = 0x0C then [CHR 0x5C, CHR ''f'']
      else if n = 0x0A then [CHR 0x5C, CHR ''n'']
      else if n = 0x0D then [CHR 0x5C, CHR ''r'']
      else if n = 0x09 then [CHR 0x5C, CHR ''t'']
      else if 0x20 \<le> n \<and> n \<le> 0x7E then [c]
      else [CHR 0x5C, CHR ''u'', CHR ''0'', CHR ''0'', digit_char (n div 16), digit_char (n mod 16)])"

definition encode_str :: "string \<Rightarrow> string" where
  "encode_str s = [CHR 0x22] @ concat (map escape_char s) @ [CHR 0x22]"

definition floatstr :: "string \<Rightarrow> string" where
  "floatstr r =
     (if r = ''nan'' then ''NaN''
      else if r = ''inf'' then ''Infinity''
      else if r = ''-inf'' then ''-Infinity''
      else r)"

text \<open>A dictionary key is written as a JSON string, whatever scalar it is.\<close>

fun key_str :: "pykey \<Rightarrow> string" where
  "key_str (KStr s) = s"
| "key_str (KFloat r) = floatstr r"
| "key_str (KBool True) = ''true''"
| "key_str (KBool False) = ''false''"
| "key_str KNone = ''null''"
| "key_str (KInt i) = show_int i"

fun join :: "string \<Rightarrow> string list \<Rightarrow> string" where
  "join sep [] = []"
| "join sep [x] = x"
| "join sep (x # y # ys) = x @ sep @ join sep (y # ys)"

text \<open>
  With \<^verbatim>\<open>indent=n\<close> every item starts on a line of its own, indented by \<open>n\<close> spaces per
  nesting level, and items are separated by a comma; without it items are separated by
  a comma and a space.
\<close>

definition newline_indent :: "nat option \<Rightarrow> nat \<Rightarrow> string" where
  "newline_indent ind lvl =
     (case ind of None \<Rightarrow> [] | Some n \<Rightarrow> CHR 0x0A # replicate (n * lvl) CHR '' '')"

definition item_separator :: "nat option \<Rightarrow> nat \<Rightarrow> string" where
  "item_separator ind lvl =
     (case ind of None \<Rightarrow> '', '' | Some n \<Rightarrow> '','' @ newline_indent ind lvl)"

fun encode :: "nat option \<Rightarrow> nat \<Rightarrow> pyval \<Rightarrow> string" where
  "encode ind lvl PNone = ''null''"
| "encode ind lvl (PBool b) = (if b then ''true'' else ''false'')"
| "encode ind lvl (PInt i) = show_int i"
| "encode ind lvl (PFloat r) = floatstr r"
| "encode ind lvl (PStr s) = encode_str s"
| "encode ind lvl (PList xs) =
     (if xs = [] then ''[]''
      else ''['' @ newline_indent ind (Suc lvl)
           @ join (item_separator ind (Suc lvl)) (map (encode ind (Suc lvl)) xs)
           @ newline_indent ind lvl @ '']'')"
| "encode ind lvl (PDict kvs) =
     (if kvs = [] then ''{}''
      else ''{'' @ newline_indent ind (Suc lvl)
           @ join (item_separator ind (Suc lvl))
               (map (\<lambda>kv. encode_str (key_str (fst kv)) @ '': '' @ encode ind (Suc lvl) (snd kv)) kvs)
           @ newline_indent ind lvl @ ''}'')"

definition json_dumps :: "nat option \<Rightarrow> pyval \<Rightarrow> string" where
  "json_dumps ind v = encode ind 0 v"

section \<open>The world of one invocation\<close>

text \<open>
  What \<^verbatim>\<open>subprocess.run(['tofu', 'output', '-json'], capture_output=True, text=True)\<close>
  meets: the binary is not on the search path, the call fails with another exception,
  or the child runs to its end with a return code, its standard output and its
  standard error.
\<close>

datatype run_result =
    NotFound
  | RunRaises pyexc
  | Completed int string string

datatype loads_result = Decoded pyval | JSONDecodeError string | LoadsRaises pyexc

text \<open>
  \<open>argv\<close> is \<^verbatim>\<open>sys.argv\<close>, program name first. \<open>json_loads\<close> is the library's parser:
  it returns a value, raises \<^verbatim>\<open>JSONDecodeError\<close> with a text, or raises something else
  (\<^verbatim>\<open>ValueError\<close> on an integer of too many digits, \<^verbatim>\<open>RecursionError\<close> on deep nesting),
  which the script does not catch. \<open>signal_repr\<close> is the platform's table of signals:
  the \<^verbatim>\<open>repr\<close> of \<^verbatim>\<open>signal.Signals(n)\<close>, or \<open>None\<close> where that raises \<^verbatim>\<open>ValueError\<close>.
\<close>

record world =
  argv :: "string list"
  tofu :: run_result
  json_loads :: "string \<Rightarrow> loads_result"
  signal_repr :: "nat \<Rightarrow> string option"

text \<open>The effects of the script so far: what it has printed and how often it has run a child.\<close>

record io =
  stdout :: string
  stderr :: string
  runs :: nat

datatype 'a res = Return 'a | SysExit nat | Raise pyexc

definition print_out :: "string \<Rightarrow> io \<Rightarrow> io" where
  "print_out t s = s\<lparr>stdout := stdout s @ t @ [CHR 0x0A]\<rparr>"

definition print_err :: "string \<Rightarrow> io \<Rightarrow> io" where
  "print_err t s = s\<lparr>stderr := stderr s @ t @ [CHR 0x0A]\<rparr>"

definition bind_res :: "'a res \<times> io \<Rightarrow> ('a \<Rightarrow> io \<Rightarrow> 'b res \<times> io) \<Rightarrow> 'b res \<times> io" where
  "bind_res m f =
     (case m of
        (Return x, s) \<Rightarrow> f x s
      | (SysExit n, s) \<Rightarrow> (SysExit n, s)
      | (Raise e, s) \<Rightarrow> (Raise e, s))"

text \<open>\<^verbatim>\<open>str(e)\<close> of the \<^verbatim>\<open>CalledProcessError\<close> that \<^verbatim>\<open>check=True\<close> raises.\<close>

definition quoted_cmd :: string where
  "quoted_cmd = [CHR 0x27] @ ''['tofu', 'output', '-json']'' @ [CHR 0x27]"

definition called_process_error_str :: "world \<Rightarrow> int \<Rightarrow> string" where
  "called_process_error_str w rc =
     (if rc < 0 then
        (case signal_repr w (nat (- rc)) of
           Some r \<Rightarrow> ''Command '' @ quoted_cmd @ '' died with '' @ r @ ''.''
         | None \<Rightarrow> ''Command '' @ quoted_cmd @ '' died with unknown signal '' @ show_int (- rc) @ ''.'')
      else ''Command '' @ quoted_cmd @ '' returned non-zero exit status '' @ show_int rc @ ''.'')"

section \<open>The script\<close>

definition get_tofu_outputs :: "world \<Rightarrow> io \<Rightarrow> pyval res \<times> io" where
  "get_tofu_outputs w s =
     (let s1 = s\<lparr>runs := Suc (runs s)\<rparr> in
      case tofu w of
        Completed rc out_text err_text \<Rightarrow>
          if rc \<noteq> 0 then
            (SysExit 1, print_err (''Error running tofu output: '' @ called_process_error_str w rc) s1)
          else
            (case json_loads w out_text of
               Decoded v \<Rightarrow> (Return v, s1)
             | JSONDecodeError msg \<Rightarrow>
                 (SysExit 1, print_err (''Error parsing tofu output: '' @ msg) s1)
             | LoadsRaises e \<Rightarrow> (Raise e, s1))
      | NotFound \<Rightarrow>
          (SysExit 1,
           print_err ''Error: 'tofu' command not found. Please ensure OpenTofu is installed.'' s1)
      | RunRaises e \<Rightarrow> (Raise e, s1))"

text \<open>
  Lines 49 to 76 of \<^verbatim>\<open>build_inventory\<close>, as a function of \<^verbatim>\<open>outputs\<close>: the two
  extractions in the order of the source, the check of the address, the document.
\<close>

definition inventory_of :: "pyval \<Rightarrow> io \<Rightarrow> pyval res \<times> io" where
  "inventory_of outputs s =
     (case py_get outputs ''instance_public_ip'' (PDict []) of
        Inl e \<Rightarrow> (Raise e, s)
      | Inr ip_entry \<Rightarrow>
     (case py_get ip_entry ''value'' PNone of
        Inl e \<Rightarrow> (Raise e, s)
      | Inr public_ip \<Rightarrow>
     (case py_get outputs ''ssh_user'' (PDict []) of
        Inl e \<Rightarrow> (Raise e, s)
      | Inr user_entry \<Rightarrow>
     (case py_get user_entry ''value'' (PStr ''ec2-user'') of
        Inl e \<Rightarrow> (Raise e, s)
      | Inr ssh_user \<Rightarrow>
     if \<not> truthy public_ip then
       (SysExit 1, print_err ''Error: No public IP found in OpenTofu outputs'' s)
     else
       (case as_key public_ip of
          None \<Rightarrow> (Raise TypeError, s)
        | Some k \<Rightarrow>
            (Return (PDict
               [(KStr ''web_servers'', PDict
                   [(KStr ''hosts'', PList [public_ip]),
                    (KStr ''vars'', PDict
                       [(KStr ''ansible_user'', ssh_user),
                        (KStr ''ansible_ssh_private_key_file'', PStr ''./demo-key'')])]),
                (KStr ''_meta'', PDict
                   [(KStr ''hostvars'', PDict
                       [(k, PDict
                           [(KStr ''ansible_host'', public_ip),
                            (KStr ''ansible_user'', ssh_user)])])])]), s))))))"

definition build_inventory :: "world \<Rightarrow> io \<Rightarrow> pyval res \<times> io" where
  "build_inventory w s = bind_res (get_tofu_outputs w s) inventory_of"

definition usage :: string where
  "usage = ''Usage: dynamic_inventory.py --list or --host <hostname>''"

definition main :: "world \<Rightarrow> io \<Rightarrow> unit res \<times> io" where
  "main w s =
     (if length (argv w) = 2 \<and> argv w ! 1 = ''--list'' then
        bind_res (build_inventory w s)
          (\<lambda>inventory s'. (Return (), print_out (json_dumps (Some 2) inventory) s'))
      else if length (argv w) = 3 \<and> argv w ! 1 = ''--host'' then
        (Return (), print_out (json_dumps None (PDict [])) s)
      else (SysExit 1, print_err usage s))"

text \<open>
  The process as its caller sees it: the two streams as the script wrote them, the
  uncaught exception whose traceback the interpreter adds to the error stream, the exit
  status, and the number of children run.
\<close>

record outcome =
  out :: string
  err :: string
  traceback :: "pyexc option"
  status :: nat
  children :: nat

definition script :: "world \<Rightarrow> outcome" where
  "script w =
     (case main w \<lparr>stdout = [], stderr = [], runs = 0\<rparr> of
        (Return u, s) \<Rightarrow>
          \<lparr>out = stdout s, err = stderr s, traceback = None, status = 0, children = runs s\<rparr>
      | (SysExit n, s) \<Rightarrow>
          \<lparr>out = stdout s, err = stderr s, traceback = None, status = n, children = runs s\<rparr>
      | (Raise e, s) \<Rightarrow>
          \<lparr>out = stdout s, err = stderr s, traceback = Some e, status = 1, children = runs s\<rparr>)"

section \<open>Reading the input and the document\<close>

text \<open>Subscripting and following a path of keys; \<open>None\<close> where a key is missing.\<close>

fun is_dict :: "pyval \<Rightarrow> bool" where
  "is_dict (PDict kvs) = True"
| "is_dict _ = False"

fun subscript :: "pyval \<Rightarrow> pykey \<Rightarrow> pyval option" where
  "subscript (PDict kvs) k = map_of kvs k"
| "subscript _ k = None"

fun at_path :: "pyval \<Rightarrow> pykey list \<Rightarrow> pyval option" where
  "at_path v [] = Some v"
| "at_path v (k # ks) = (case subscript v k of None \<Rightarrow> None | Some u \<Rightarrow> at_path u ks)"

fun dict_items :: "pyval option \<Rightarrow> (pykey \<times> pyval) list" where
  "dict_items (Some (PDict kvs)) = kvs"
| "dict_items _ = []"

text \<open>
  The shape that \<^verbatim>\<open>tofu output -json\<close> prints: a mapping from output names to objects.
  \<open>field_value raw name\<close> is \<^verbatim>\<open>raw[name].value\<close>, \<open>None\<close> where a key is missing at
  either level.
\<close>

definition raw_state_output :: "pyval \<Rightarrow> bool" where
  "raw_state_output raw =
     (is_dict raw \<and> list_all (\<lambda>kv. is_dict (snd kv)) (dict_items (Some raw)))"

definition field_value :: "pyval \<Rightarrow> string \<Rightarrow> pyval option" where
  "field_value raw name = at_path raw [KStr name, KStr ''value'']"

text \<open>
  What the two extractions need: the input is a mapping, and each of the two entries, where
  there is one, is a mapping.
\<close>

definition shape_ok :: "pyval \<Rightarrow> bool" where
  "shape_ok raw =
     (is_dict raw
      \<and> (\<forall>v. subscript raw (KStr ''instance_public_ip'') = Some v \<longrightarrow> is_dict v)
      \<and> (\<forall>v. subscript raw (KStr ''ssh_user'') = Some v \<longrightarrow> is_dict v))"

definition the_public_ip :: "pyval \<Rightarrow> pyval" where
  "the_public_ip raw =
     (case field_value raw ''instance_public_ip'' of None \<Rightarrow> PNone | Some v \<Rightarrow> v)"

definition the_ssh_user :: "pyval \<Rightarrow> pyval" where
  "the_ssh_user raw =
     (case field_value raw ''ssh_user'' of None \<Rightarrow> PStr ''ec2-user'' | Some v \<Rightarrow> v)"

text \<open>The fields of an inventory that the properties below speak about.\<close>

definition hosts :: "pyval \<Rightarrow> pyval option" where
  "hosts doc = at_path doc [KStr ''web_servers'', KStr ''hosts'']"

definition hostvars :: "pyval \<Rightarrow> (pykey \<times> pyval) list" where
  "hostvars doc = dict_items (at_path doc [KStr ''_meta'', KStr ''hostvars''])"

definition group_user :: "pyval \<Rightarrow> pyval option" where
  "group_user doc = at_path doc [KStr ''web_servers'', KStr ''vars'', KStr ''ansible_user'']"

definition host_users :: "pyval \<Rightarrow> pyval option list" where
  "host_users doc = map (\<lambda>kv. subscript (snd kv) (KStr ''ansible_user'')) (hostvars doc)"

text \<open>The inventory for a host key, an address and a user.\<close>

definition document :: "pykey \<Rightarrow> pyval \<Rightarrow> pyval \<Rightarrow> pyval" where
  "document k public_ip ssh_user =
     PDict
       [(KStr ''web_servers'', PDict
           [(KStr ''hosts'', PList [public_ip]),
            (KStr ''vars'', PDict
               [(KStr ''ansible_user'', ssh_user),
                (KStr ''ansible_ssh_private_key_file'', PStr ''./demo-key'')])]),
        (KStr ''_meta'', PDict
           [(KStr ''hostvars'', PDict
               [(k, PDict
                   [(KStr ''ansible_host'', public_ip),
                    (KStr ''ansible_user'', ssh_user)])])])]"

text \<open>The effects at the moment the child has run and nothing is printed yet.\<close>

definition start :: io where
  "start = \<lparr>stdout = [], stderr = [], runs = Suc 0\<rparr>"


section \<open>Example inputs\<close>

definition example_raw :: pyval where
  "example_raw =
     PDict [(KStr ''instance_public_ip'', PDict [(KStr ''value'', PStr ''203.0.113.5'')]),
            (KStr ''ssh_user'', PDict [(KStr ''value'', PStr ''ubuntu'')])]"

definition default_user_raw :: pyval where
  "default_user_raw =
     PDict [(KStr ''instance_public_ip'', PDict [(KStr ''value'', PStr ''203.0.113.5'')])]"

definition null_user_raw :: pyval where
  "null_user_raw =
     PDict [(KStr ''instance_public_ip'', PDict [(KStr ''value'', PStr ''203.0.113.5'')]),
            (KStr ''ssh_user'', PDict [(KStr ''value'', PNone)])]"

definition no_address_raw :: pyval where
  "no_address_raw = PDict [(KStr ''ssh_user'', PDict [(KStr ''value'', PStr ''ubuntu'')])]"

definition empty_address_raw :: pyval where
  "empty_address_raw =
     PDict [(KStr ''instance_public_ip'', PDict [(KStr ''value'', PStr [])]),
            (KStr ''ssh_user'', PDict [(KStr ''value'', PStr ''ubuntu'')])]"

definition list_address_raw :: pyval where
  "list_address_raw =
     PDict [(KStr ''instance_public_ip'', PDict [(KStr ''value'', PList [PStr ''203.0.113.5''])]),
            (KStr ''ssh_user'', PDict [(KStr ''value'', PStr ''ubuntu'')])]"

definition true_address_raw :: pyval where
  "true_address_raw =
     PDict [(KStr ''instance_public_ip'', PDict [(KStr ''value'', PBool True)])]"

definition string_entry_raw :: pyval where
  "string_entry_raw = PDict [(KStr ''instance_public_ip'', PStr ''203.0.113.5'')]"

definition list_entry_raw :: pyval where
  "list_entry_raw =
     PDict [(KStr ''instance_public_ip'', PDict [(KStr ''value'', PStr ''203.0.113.5'')]),
            (KStr ''ssh_user'', PList [PStr ''ubuntu''])]"

text \<open>
  A world with the given arguments and child, whose parser decodes the text \<^verbatim>\<open>{...}\<close>
  to the given value.
\<close>

definition world_of :: "string list \<Rightarrow> run_result \<Rightarrow> pyval \<Rightarrow> world" where
  "world_of args r raw =
     \<lparr>argv = ''dynamic_inventory.py'' # args, tofu = r,
      json_loads = (\<lambda>t. if t = ''{...}'' then Decoded raw else JSONDecodeError ''Expecting value''),
      signal_repr = (\<lambda>n. if n = 9 then Some ''<Signals.SIGKILL: 9>'' else None)\<rparr>"


section \<open>The builder on inputs of the right and of the wrong shape\<close>

lemma map_of_is_dict:
  "list_all (\<lambda>kv. is_dict (snd kv)) kvs \<Longrightarrow> map_of kvs k = Some v \<Longrightarrow> is_dict v"
  by (induction kvs) (auto split: if_splits)

lemma is_dict_conv: "is_dict v \<longleftrightarrow> (\<exists>kvs. v = PDict kvs)"
  by (cases v) auto

lemma py_get_not_dict: "\<not> is_dict v \<Longrightarrow> py_get v k d = Inl AttributeError"
  by (cases v) auto

lemma raw_state_output_shape_ok: "raw_state_output raw \<Longrightarrow> shape_ok raw"
  by (cases raw) (auto simp: shape_ok_def raw_state_output_def dest: map_of_is_dict)

lemma inventory_of_shape_ok:
  assumes "shape_ok raw"
  shows "inventory_of raw s =
     (if \<not> truthy (the_public_ip raw) then
        (SysExit 1, print_err ''Error: No public IP found in OpenTofu outputs'' s)
      else case as_key (the_public_ip raw) of
             None \<Rightarrow> (Raise TypeError, s)
           | Some k \<Rightarrow> (Return (document k (the_public_ip raw) (the_ssh_user raw)), s))"
proof -
  from assms obtain kvs where raw: "raw = PDict kvs"
    by (auto simp: shape_ok_def is_dict_conv)
  show ?thesis
  proof (cases "map_of kvs (KStr ''instance_public_ip'')")
    case None
    note ip = None
    show ?thesis
    proof (cases "map_of kvs (KStr ''ssh_user'')")
      case None
      with ip raw show ?thesis
        by (simp add: inventory_of_def the_public_ip_def the_ssh_user_def field_value_def)
    next
      case (Some u)
      with assms raw obtain e where "u = PDict e"
        by (auto simp: shape_ok_def is_dict_conv)
      with Some ip raw show ?thesis
        by (simp add: inventory_of_def the_public_ip_def the_ssh_user_def field_value_def
            split: option.splits)
    qed
  next
    case (Some v)
    note ip = Some
    with assms raw obtain e where v: "v = PDict e"
      by (auto simp: shape_ok_def is_dict_conv)
    show ?thesis
    proof (cases "map_of kvs (KStr ''ssh_user'')")
      case None
      with ip v raw show ?thesis
        by (simp add: inventory_of_def the_public_ip_def the_ssh_user_def field_value_def
            document_def split: option.splits)
    next
      case (Some u)
      with assms raw obtain e' where "u = PDict e'"
        by (auto simp: shape_ok_def is_dict_conv)
      with Some ip v raw show ?thesis
        by (simp add: inventory_of_def the_public_ip_def the_ssh_user_def field_value_def
            document_def split: option.splits)
    qed
  qed
qed

lemma inventory_of_not_shape_ok:
  assumes "\<not> shape_ok raw"
  shows "inventory_of raw s = (Raise AttributeError, s)"
proof (cases "is_dict raw")
  case False
  then show ?thesis by (simp add: inventory_of_def py_get_not_dict)
next
  case True
  then obtain kvs where raw: "raw = PDict kvs" by (auto simp: is_dict_conv)
  show ?thesis
  proof (cases "\<exists>v. map_of kvs (KStr ''instance_public_ip'') = Some v \<and> \<not> is_dict v")
    case True
    then obtain v where "map_of kvs (KStr ''instance_public_ip'') = Some v" "\<not> is_dict v"
      by blast
    with raw show ?thesis by (simp add: inventory_of_def py_get_not_dict)
  next
    case False
    with assms raw obtain u where u: "map_of kvs (KStr ''ssh_user'') = Some u" "\<not> is_dict u"
      by (auto simp: shape_ok_def)
    show ?thesis
    proof (cases "map_of kvs (KStr ''instance_public_ip'')")
      case None
      with u raw show ?thesis by (simp add: inventory_of_def py_get_not_dict)
    next
      case (Some v)
      with False obtain e where "v = PDict e" by (auto simp: is_dict_conv)
      with Some u raw show ?thesis by (simp add: inventory_of_def py_get_not_dict)
    qed
  qed
qed

lemma inventory_of_Return:
  assumes "inventory_of raw s = (Return doc, s')"
  shows "s' = s \<and> shape_ok raw \<and> truthy (the_public_ip raw)
     \<and> (\<exists>k. as_key (the_public_ip raw) = Some k
            \<and> doc = document k (the_public_ip raw) (the_ssh_user raw))"
proof (cases "shape_ok raw")
  case False
  with assms show ?thesis by (simp add: inventory_of_not_shape_ok)
next
  case True
  with assms show ?thesis
    by (auto simp: inventory_of_shape_ok split: if_splits option.splits)
qed


text \<open>The inputs for which the builder returns a document.\<close>

lemma inventory_of_accepts:
  "(\<exists>doc s'. inventory_of raw s = (Return doc, s')) \<longleftrightarrow>
     shape_ok raw
     \<and> (\<exists>v k. field_value raw ''instance_public_ip'' = Some v \<and> truthy v \<and> as_key v = Some k)"
proof
  assume "\<exists>doc s'. inventory_of raw s = (Return doc, s')"
  then obtain doc s' where "inventory_of raw s = (Return doc, s')" by blast
  from inventory_of_Return [OF this] obtain k
    where ok: "shape_ok raw" and t: "truthy (the_public_ip raw)"
      and k: "as_key (the_public_ip raw) = Some k" by blast
  from t obtain v where "field_value raw ''instance_public_ip'' = Some v" "the_public_ip raw = v"
    by (cases "field_value raw ''instance_public_ip''") (auto simp: the_public_ip_def)
  with ok t k show "shape_ok raw
     \<and> (\<exists>v k. field_value raw ''instance_public_ip'' = Some v \<and> truthy v \<and> as_key v = Some k)"
    by auto
next
  assume "shape_ok raw
     \<and> (\<exists>v k. field_value raw ''instance_public_ip'' = Some v \<and> truthy v \<and> as_key v = Some k)"
  then show "\<exists>doc s'. inventory_of raw s = (Return doc, s')"
    by (auto simp: inventory_of_shape_ok the_public_ip_def)
qed

text \<open>
  An address that is a non-empty list or object cannot be a key of \<^verbatim>\<open>hostvars\<close>: the
  dictionary display raises.
\<close>

lemma unhashable_address_raises:
  assumes "shape_ok raw" and "field_value raw ''instance_public_ip'' = Some v"
    and "truthy v" and "as_key v = None"
  shows "inventory_of raw s = (Raise TypeError, s)"
  using assms by (simp add: inventory_of_shape_ok the_public_ip_def)

subsection \<open>The fields of the document\<close>

lemma hosts_document: "hosts (document k a u) = Some (PList [a])"
  by (simp add: hosts_def document_def)

lemma hostvars_document:
  "hostvars (document k a u) =
     [(k, PDict [(KStr ''ansible_host'', a), (KStr ''ansible_user'', u)])]"
  by (simp add: hostvars_def document_def)

lemma group_user_document: "group_user (document k a u) = Some u"
  by (simp add: group_user_def document_def)

lemma host_users_document: "host_users (document k a u) = [Some u]"
  by (simp add: host_users_def hostvars_document)

subsection \<open>The script under \<^verbatim>\<open>--list\<close>\<close>

lemma script_list:
  assumes "argv w = [p, ''--list'']" and "tofu w = Completed 0 ot et"
    and "json_loads w ot = Decoded raw"
  shows "script w =
     (case inventory_of raw start of
        (Return doc, s) \<Rightarrow>
          \<lparr>out = stdout s @ json_dumps (Some 2) doc @ [CHR 0x0A], err = stderr s,
           traceback = None, status = 0, children = runs s\<rparr>
      | (SysExit n, s) \<Rightarrow>
          \<lparr>out = stdout s, err = stderr s, traceback = None, status = n, children = runs s\<rparr>
      | (Raise e, s) \<Rightarrow>
          \<lparr>out = stdout s, err = stderr s, traceback = Some e, status = 1, children = runs s\<rparr>)"
  using assms
  by (simp add: script_def main_def build_inventory_def get_tofu_outputs_def bind_res_def
      print_out_def start_def split: prod.splits res.splits)




lemma null_user_raw_document:
  "inventory_of null_user_raw s =
     (Return (document (KStr ''203.0.113.5'') (PStr ''203.0.113.5'') PNone), s)"
  by (simp add: inventory_of_def null_user_raw_def document_def)

section \<open>The properties\<close>

text \<open>
  C1, as stated, fails. The value of \<^verbatim>\<open>instance_public_ip\<close> is tested for truth only, and
  a state output may hold a list: for the non-empty value \<^verbatim>\<open>["203.0.113.5"]\<close> the
  dictionary display of \<^verbatim>\<open>hostvars\<close> raises \<^verbatim>\<open>TypeError\<close> and there is no document.
\<close>

theorem list_address_gives_no_document:
  "raw_state_output list_address_raw
   \<and> field_value list_address_raw ''instance_public_ip'' = Some (PList [PStr ''203.0.113.5''])
   \<and> truthy (PList [PStr ''203.0.113.5''])
   \<and> inventory_of list_address_raw start = (Raise TypeError, start)"
  by (simp add: raw_state_output_def field_value_def list_address_raw_def inventory_of_def)

text \<open>
  C1, amended. For an input of the shape of a state output whose \<^verbatim>\<open>instance_public_ip\<close>
  entry has a truthy value that can be a dictionary key (a non-empty string, a number other
  than zero, \<^verbatim>\<open>true\<close>; no list and no object), the builder returns a document, without any
  effect, in which \<^verbatim>\<open>web_servers.hosts\<close> is the one-element list of that value and
  \<^verbatim>\<open>_meta.hostvars\<close> has exactly one key, that value.
\<close>

theorem inventory_host_addressable_both_ways:
  assumes "raw_state_output raw"
    and "field_value raw ''instance_public_ip'' = Some v" and "truthy v"
    and "as_key v = Some k"
  shows "\<exists>doc. inventory_of raw s = (Return doc, s)
           \<and> hosts doc = Some (PList [v])
           \<and> map fst (hostvars doc) = [k]"
proof -
  from assms(1) have "shape_ok raw" by (rule raw_state_output_shape_ok)
  moreover from assms(2) have "the_public_ip raw = v"
    by (simp add: the_public_ip_def)
  ultimately have "inventory_of raw s = (Return (document k v (the_ssh_user raw)), s)"
    using assms(3,4) by (simp add: inventory_of_shape_ok)
  then show ?thesis
    by (simp add: hosts_document hostvars_document)
qed

theorem inventory_host_addressable_both_ways_witness:
  "raw_state_output example_raw
   \<and> field_value example_raw ''instance_public_ip'' = Some (PStr ''203.0.113.5'')
   \<and> truthy (PStr ''203.0.113.5'')
   \<and> as_key (PStr ''203.0.113.5'') = Some (KStr ''203.0.113.5'')
   \<and> (\<exists>doc. inventory_of example_raw start = (Return doc, start)
          \<and> hosts doc = Some (PList [PStr ''203.0.113.5''])
          \<and> map fst (hostvars doc) = [KStr ''203.0.113.5''])
   \<and> raw_state_output true_address_raw
   \<and> field_value true_address_raw ''instance_public_ip'' = Some (PBool True)
   \<and> (\<exists>doc. inventory_of true_address_raw start = (Return doc, start)
          \<and> hosts doc = Some (PList [PBool True])
          \<and> map fst (hostvars doc) = [KBool True])"
proof -
  have a: "raw_state_output example_raw"
    by (simp add: raw_state_output_def example_raw_def)
  have b: "field_value example_raw ''instance_public_ip'' = Some (PStr ''203.0.113.5'')"
    by (simp add: field_value_def example_raw_def)
  have c: "truthy (PStr ''203.0.113.5'')" by simp
  have d: "as_key (PStr ''203.0.113.5'') = Some (KStr ''203.0.113.5'')" by simp
  have a': "raw_state_output true_address_raw"
    by (simp add: raw_state_output_def true_address_raw_def)
  have b': "field_value true_address_raw ''instance_public_ip'' = Some (PBool True)"
    by (simp add: field_value_def true_address_raw_def)
  have c': "truthy (PBool True)" by simp
  have d': "as_key (PBool True) = Some (KBool True)" by simp
  from inventory_host_addressable_both_ways [OF a b c d, of start]
    inventory_host_addressable_both_ways [OF a' b' c' d', of start] a b c d a' b'
  show ?thesis by blast
qed

text \<open>
  C2. For an input of the shape of a state output in which \<^verbatim>\<open>instance_public_ip\<close> or its
  \<^verbatim>\<open>value\<close> is missing, or the value is falsy (the empty string among others), the builder
  prints the message about the missing address to the error stream and exits with
  status 1; under \<^verbatim>\<open>--list\<close> the process then has printed nothing to standard output.
\<close>

theorem missing_public_ip_is_fatal:
  assumes "raw_state_output raw"
    and "field_value raw ''instance_public_ip'' = None
         \<or> (\<exists>v. field_value raw ''instance_public_ip'' = Some v \<and> \<not> truthy v)"
  shows "inventory_of raw s =
       (SysExit 1, print_err ''Error: No public IP found in OpenTofu outputs'' s)
     \<and> (argv w = [p, ''--list''] \<and> tofu w = Completed 0 ot et \<and> json_loads w ot = Decoded raw
          \<longrightarrow> script w =
               \<lparr>out = [], err = ''Error: No public IP found in OpenTofu outputs'' @ [CHR 0x0A],
                traceback = None, status = 1, children = 1\<rparr>)"
proof -
  from assms(1) have ok: "shape_ok raw" by (rule raw_state_output_shape_ok)
  from assms(2) have "\<not> truthy (the_public_ip raw)"
    by (auto simp: the_public_ip_def)
  with ok have *: "inventory_of raw t =
      (SysExit 1, print_err ''Error: No public IP found in OpenTofu outputs'' t)" for t
    by (simp add: inventory_of_shape_ok)
  have "script w =
      \<lparr>out = [], err = ''Error: No public IP found in OpenTofu outputs'' @ [CHR 0x0A],
       traceback = None, status = 1, children = 1\<rparr>"
    if "argv w = [p, ''--list'']" "tofu w = Completed 0 ot et" "json_loads w ot = Decoded raw"
    using script_list [OF that] by (simp add: * print_err_def start_def)
  with * show ?thesis by blast
qed

theorem missing_public_ip_is_fatal_witness:
  "raw_state_output no_address_raw
   \<and> field_value no_address_raw ''instance_public_ip'' = None
   \<and> raw_state_output empty_address_raw
   \<and> field_value empty_address_raw ''instance_public_ip'' = Some (PStr [])
   \<and> \<not> truthy (PStr [])
   \<and> script (world_of [''--list''] (Completed 0 ''{...}'' []) no_address_raw) =
       \<lparr>out = [], err = ''Error: No public IP found in OpenTofu outputs'' @ [CHR 0x0A],
        traceback = None, status = 1, children = 1\<rparr>
   \<and> script (world_of [''--list''] (Completed 0 ''{...}'' []) empty_address_raw) =
       \<lparr>out = [], err = ''Error: No public IP found in OpenTofu outputs'' @ [CHR 0x0A],
        traceback = None, status = 1, children = 1\<rparr>"
proof -
  have a: "raw_state_output no_address_raw"
    by (simp add: raw_state_output_def no_address_raw_def)
  have b: "field_value no_address_raw ''instance_public_ip'' = None"
    by (simp add: field_value_def no_address_raw_def)
  have c: "raw_state_output empty_address_raw"
    by (simp add: raw_state_output_def empty_address_raw_def)
  have d: "field_value empty_address_raw ''instance_public_ip'' = Some (PStr [])"
    by (simp add: field_value_def empty_address_raw_def)
  from missing_public_ip_is_fatal [OF a, of start
      "world_of [''--list''] (Completed 0 ''{...}'' []) no_address_raw"
      "''dynamic_inventory.py''" "''{...}''" "[]"]
    missing_public_ip_is_fatal [OF c, of start
      "world_of [''--list''] (Completed 0 ''{...}'' []) empty_address_raw"
      "''dynamic_inventory.py''" "''{...}''" "[]"]
    a b c d
  show ?thesis by (simp add: world_of_def)
qed

text \<open>
  C3. The builder accepts exactly the inputs whose two entries, where present, are mappings
  and whose address is truthy and can be a key (\<open>inventory_of_accepts\<close>). For each
  of them it returns a document in which, if \<^verbatim>\<open>ssh_user\<close> or its \<^verbatim>\<open>value\<close> is missing,
  the \<^verbatim>\<open>ansible_user\<close> of the group's vars and the \<^verbatim>\<open>ansible_user\<close> of every entry of
  \<^verbatim>\<open>_meta.hostvars\<close> (there is one) are the literal \<^verbatim>\<open>ec2-user\<close>, and if the value is
  present, both are that value.
\<close>

theorem ansible_user_given_or_default:
  assumes "shape_ok raw"
    and "field_value raw ''instance_public_ip'' = Some v" and "truthy v"
    and "as_key v = Some k"
  shows "\<exists>doc. inventory_of raw s = (Return doc, s)
       \<and> (field_value raw ''ssh_user'' = None
            \<longrightarrow> group_user doc = Some (PStr ''ec2-user'')
                \<and> host_users doc = [Some (PStr ''ec2-user'')])
       \<and> (\<forall>u. field_value raw ''ssh_user'' = Some u
            \<longrightarrow> group_user doc = Some u \<and> host_users doc = [Some u])"
proof -
  from assms(2) have "the_public_ip raw = v"
    by (simp add: the_public_ip_def)
  with assms(1,3,4) have
    "inventory_of raw s = (Return (document k v (the_ssh_user raw)), s)"
    by (simp add: inventory_of_shape_ok)
  then show ?thesis
    by (simp add: group_user_document host_users_document the_ssh_user_def)
qed

theorem ansible_user_given_or_default_witness:
  "shape_ok default_user_raw
   \<and> field_value default_user_raw ''instance_public_ip'' = Some (PStr ''203.0.113.5'')
   \<and> field_value default_user_raw ''ssh_user'' = None
   \<and> (\<exists>doc. inventory_of default_user_raw start = (Return doc, start)
          \<and> group_user doc = Some (PStr ''ec2-user'')
          \<and> host_users doc = [Some (PStr ''ec2-user'')])
   \<and> shape_ok example_raw
   \<and> field_value example_raw ''instance_public_ip'' = Some (PStr ''203.0.113.5'')
   \<and> field_value example_raw ''ssh_user'' = Some (PStr ''ubuntu'')
   \<and> (\<exists>doc. inventory_of example_raw start = (Return doc, start)
          \<and> group_user doc = Some (PStr ''ubuntu'')
          \<and> host_users doc = [Some (PStr ''ubuntu'')])"
proof -
  have a: "shape_ok default_user_raw"
    by (simp add: shape_ok_def default_user_raw_def)
  have b: "field_value default_user_raw ''instance_public_ip'' = Some (PStr ''203.0.113.5'')"
    by (simp add: field_value_def default_user_raw_def)
  have c: "field_value default_user_raw ''ssh_user'' = None"
    by (simp add: field_value_def default_user_raw_def)
  have a': "shape_ok example_raw"
    by (simp add: shape_ok_def example_raw_def)
  have b': "field_value example_raw ''instance_public_ip'' = Some (PStr ''203.0.113.5'')"
    by (simp add: field_value_def example_raw_def)
  have c': "field_value example_raw ''ssh_user'' = Some (PStr ''ubuntu'')"
    by (simp add: field_value_def example_raw_def)
  have t: "truthy (PStr ''203.0.113.5'')" by simp
  have k: "as_key (PStr ''203.0.113.5'') = Some (KStr ''203.0.113.5'')" by simp
  from ansible_user_given_or_default [OF a b t k, of start]
    ansible_user_given_or_default [OF a' b' t k, of start] a b c a' b' c'
  show ?thesis by auto
qed



text \<open>
  C5. With exactly the two arguments \<^verbatim>\<open>--host\<close> and a name, whatever the name, the child
  and the parser are, the process prints the empty JSON object, prints nothing to the error
  stream, exits with 0 and has run no child, so neither the reader nor the builder ran.
\<close>

theorem host_prints_empty_object:
  assumes "argv w = [p, ''--host'', name]"
  shows "script w =
       \<lparr>out = ''{}'' @ [CHR 0x0A], err = [], traceback = None, status = 0, children = 0\<rparr>
     \<and> script (w\<lparr>tofu := r, json_loads := j\<rparr>) = script w"
  using assms by (simp add: script_def main_def json_dumps_def print_out_def)

theorem host_prints_empty_object_witness:
  "argv (world_of [''--host'', ''web1''] NotFound no_address_raw)
     = [''dynamic_inventory.py'', ''--host'', ''web1'']
   \<and> script (world_of [''--host'', ''web1''] NotFound no_address_raw) =
       \<lparr>out = ''{}'' @ [CHR 0x0A], err = [], traceback = None, status = 0, children = 0\<rparr>"
proof -
  have a: "argv (world_of [''--host'', ''web1''] NotFound no_address_raw)
     = [''dynamic_inventory.py'', ''--host'', ''web1'']"
    by (simp add: world_of_def)
  from host_prints_empty_object [OF a] a show ?thesis by simp
qed

text \<open>
  C6. When the arguments after the program name are neither exactly \<^verbatim>\<open>--list\<close> nor exactly
  \<^verbatim>\<open>--host\<close> and one name, the process prints the usage line to the error stream, prints
  nothing to standard output, exits with 1 and has run no child.
\<close>

theorem other_invocation_prints_usage:
  assumes "tl (argv w) \<noteq> [''--list'']" and "\<forall>name. tl (argv w) \<noteq> [''--host'', name]"
  shows "script w =
     \<lparr>out = [], err = ''Usage: dynamic_inventory.py --list or --host <hostname>'' @ [CHR 0x0A],
      traceback = None, status = 1, children = 0\<rparr>"
proof -
  have a: "\<not> (length (argv w) = 2 \<and> argv w ! 1 = ''--list'')"
  proof
    assume h: "length (argv w) = 2 \<and> argv w ! 1 = ''--list''"
    then obtain a b where "argv w = [a, b]"
      by (auto simp: length_Suc_conv numeral_2_eq_2)
    with h assms(1) show False by simp
  qed
  have b: "\<not> (length (argv w) = 3 \<and> argv w ! 1 = ''--host'')"
  proof
    assume h: "length (argv w) = 3 \<and> argv w ! 1 = ''--host''"
    then obtain a b c where "argv w = [a, b, c]"
      by (auto simp: length_Suc_conv numeral_3_eq_3)
    with h assms(2) show False by simp
  qed
  from a b have "main w s0 = (SysExit 1, print_err usage s0)" for s0
    unfolding main_def by (simp only: if_False)
  then show ?thesis
    by (simp add: script_def print_err_def usage_def)
qed

theorem other_invocation_prints_usage_witness:
  "tl (argv (world_of [] NotFound example_raw)) \<noteq> [''--list'']
   \<and> tl (argv (world_of [''--list'', ''--yaml''] NotFound example_raw)) \<noteq> [''--list'']
   \<and> tl (argv (world_of [''--host''] NotFound example_raw)) \<noteq> [''--list'']
   \<and> script (world_of [] NotFound example_raw) =
       \<lparr>out = [], err = ''Usage: dynamic_inventory.py --list or --host <hostname>'' @ [CHR 0x0A],
        traceback = None, status = 1, children = 0\<rparr>
   \<and> script (world_of [''--list'', ''--yaml''] NotFound example_raw) =
       \<lparr>out = [], err = ''Usage: dynamic_inventory.py --list or --host <hostname>'' @ [CHR 0x0A],
        traceback = None, status = 1, children = 0\<rparr>
   \<and> script (world_of [''--host''] NotFound example_raw) =
       \<lparr>out = [], err = ''Usage: dynamic_inventory.py --list or --host <hostname>'' @ [CHR 0x0A],
        traceback = None, status = 1, children = 0\<rparr>"
proof -
  have a: "tl (argv (world_of [] NotFound example_raw)) \<noteq> [''--list'']"
    and a': "\<forall>name. tl (argv (world_of [] NotFound example_raw)) \<noteq> [''--host'', name]"
    by (simp_all add: world_of_def)
  have b: "tl (argv (world_of [''--list'', ''--yaml''] NotFound example_raw)) \<noteq> [''--list'']"
    and b': "\<forall>name. tl (argv (world_of [''--list'', ''--yaml''] NotFound example_raw))
               \<noteq> [''--host'', name]"
    by (simp_all add: world_of_def)
  have c: "tl (argv (world_of [''--host''] NotFound example_raw)) \<noteq> [''--list'']"
    and c': "\<forall>name. tl (argv (world_of [''--host''] NotFound example_raw)) \<noteq> [''--host'', name]"
    by (simp_all add: world_of_def)
  from other_invocation_prints_usage [OF a a'] other_invocation_prints_usage [OF b b']
    other_invocation_prints_usage [OF c c'] a b c
  show ?thesis by simp
qed




text \<open>
  C9. For an input that the builder accepts: if the \<^verbatim>\<open>ssh_user\<close> entry has the key
  \<^verbatim>\<open>value\<close> with \<^verbatim>\<open>null\<close>, both \<^verbatim>\<open>ansible_user\<close> fields of the document are \<^verbatim>\<open>None\<close>; and
  where one of them is \<^verbatim>\<open>ec2-user\<close>, the entry or its \<^verbatim>\<open>value\<close> is missing, or the value
  is that very string.
\<close>

theorem null_user_is_kept:
  assumes "inventory_of raw s = (Return doc, s')"
  shows "(field_value raw ''ssh_user'' = Some PNone
            \<longrightarrow> group_user doc = Some PNone \<and> host_users doc = [Some PNone])
       \<and> (group_user doc = Some (PStr ''ec2-user'') \<or> host_users doc = [Some (PStr ''ec2-user'')]
            \<longrightarrow> field_value raw ''ssh_user'' = None
                \<or> field_value raw ''ssh_user'' = Some (PStr ''ec2-user''))"
proof -
  from inventory_of_Return [OF assms] obtain k
    where "doc = document k (the_public_ip raw) (the_ssh_user raw)" by blast
  then show ?thesis
    by (auto simp: group_user_document host_users_document the_ssh_user_def
        split: option.splits)
qed

theorem null_user_is_kept_witness:
  "inventory_of null_user_raw start =
     (Return (document (KStr ''203.0.113.5'') (PStr ''203.0.113.5'') PNone), start)
   \<and> field_value null_user_raw ''ssh_user'' = Some PNone
   \<and> group_user (document (KStr ''203.0.113.5'') (PStr ''203.0.113.5'') PNone) = Some PNone
   \<and> host_users (document (KStr ''203.0.113.5'') (PStr ''203.0.113.5'') PNone) = [Some PNone]
   \<and> PNone \<noteq> PStr ''ec2-user''"
proof -
  have a: "field_value null_user_raw ''ssh_user'' = Some PNone"
    by (simp add: field_value_def null_user_raw_def)
  from null_user_is_kept [OF null_user_raw_document [of start]] a
    null_user_raw_document [of start]
  show ?thesis by simp
qed

text \<open>
  C10. When the input is no mapping, or its \<^verbatim>\<open>instance_public_ip\<close> or its \<^verbatim>\<open>ssh_user\<close>
  entry is no mapping (a string or an array, say), the extraction raises
  \<^verbatim>\<open>AttributeError\<close>, which nothing catches: under \<^verbatim>\<open>--list\<close> the process ends with a
  traceback and status 1, having printed no message of its own.
\<close>

theorem misshapen_state_raises:
  assumes "\<not> is_dict raw
     \<or> (\<exists>v. subscript raw (KStr ''instance_public_ip'') = Some v \<and> \<not> is_dict v)
     \<or> (\<exists>v. subscript raw (KStr ''ssh_user'') = Some v \<and> \<not> is_dict v)"
  shows "inventory_of raw s = (Raise AttributeError, s)
     \<and> (argv w = [p, ''--list''] \<and> tofu w = Completed 0 ot et \<and> json_loads w ot = Decoded raw
          \<longrightarrow> script w = \<lparr>out = [], err = [], traceback = Some AttributeError, status = 1,
                           children = 1\<rparr>)"
proof -
  from assms have "\<not> shape_ok raw" by (auto simp: shape_ok_def)
  then have *: "inventory_of raw u = (Raise AttributeError, u)" for u
    by (rule inventory_of_not_shape_ok)
  have "script w =
      \<lparr>out = [], err = [], traceback = Some AttributeError, status = 1, children = 1\<rparr>"
    if "argv w = [p, ''--list'']" "tofu w = Completed 0 ot et" "json_loads w ot = Decoded raw"
    using script_list [OF that] by (simp add: *) (simp add: start_def)
  with * show ?thesis by blast
qed

theorem misshapen_state_raises_witness:
  "\<not> is_dict (PList [])
   \<and> subscript string_entry_raw (KStr ''instance_public_ip'') = Some (PStr ''203.0.113.5'')
   \<and> \<not> is_dict (PStr ''203.0.113.5'')
   \<and> subscript list_entry_raw (KStr ''ssh_user'') = Some (PList [PStr ''ubuntu''])
   \<and> \<not> is_dict (PList [PStr ''ubuntu''])
   \<and> inventory_of (PList []) start = (Raise AttributeError, start)
   \<and> inventory_of string_entry_raw start = (Raise AttributeError, start)
   \<and> inventory_of list_entry_raw start = (Raise AttributeError, start)
   \<and> script (world_of [''--list''] (Completed 0 ''{...}'' []) (PList [])) =
       \<lparr>out = [], err = [], traceback = Some AttributeError, status = 1, children = 1\<rparr>"
proof -
  have a: "\<not> is_dict (PList [])" by simp
  have b: "subscript string_entry_raw (KStr ''instance_public_ip'') = Some (PStr ''203.0.113.5'')"
    by (simp add: string_entry_raw_def)
  have c: "subscript list_entry_raw (KStr ''ssh_user'') = Some (PList [PStr ''ubuntu''])"
    by (simp add: list_entry_raw_def)
  have b': "\<not> is_dict string_entry_raw
     \<or> (\<exists>v. subscript string_entry_raw (KStr ''instance_public_ip'') = Some v \<and> \<not> is_dict v)
     \<or> (\<exists>v. subscript string_entry_raw (KStr ''ssh_user'') = Some v \<and> \<not> is_dict v)"
    using b by simp
  have c': "\<not> is_dict list_entry_raw
     \<or> (\<exists>v. subscript list_entry_raw (KStr ''instance_public_ip'') = Some v \<and> \<not> is_dict v)
     \<or> (\<exists>v. subscript list_entry_raw (KStr ''ssh_user'') = Some v \<and> \<not> is_dict v)"
    using c by simp
  from misshapen_state_raises [OF disjI1, OF a, of start
      "world_of [''--list''] (Completed 0 ''{...}'' []) (PList [])"
      "''dynamic_inventory.py''" "''{...}''" "[]"]
    misshapen_state_raises [OF b', of start] misshapen_state_raises [OF c', of start] a b c
  show ?thesis by (simp add: world_of_def)
qed

end
